theory Spec2Isabelle
  imports Main "HOL-Library.Word" "HOL-Library.Log_Nat" "HOL-Library.Sublist"
begin

section \<open>Data model\<close>

text \<open>
  The program is a Python client that assembles Solana instructions, submits
  transactions and talks to two upload endpoints and a JSON RPC endpoint.  The
  embedding keeps the source's names.  Every call that leaves the process (RPC client,
  HTTP session, file system, key generation, the \<open>solders\<close> library) is an explicit
  argument of the function that makes the call, so that a mock of it can be plugged in.
  Output written with \<open>print\<close> is left out except in the entry point, where the log is
  what is specified.
\<close>

type_synonym bytes = "8 word list"

text \<open>\<open>solders.pubkey.Pubkey\<close>: an address, the wrapper of its bytes.\<close>

datatype pubkey = Pubkey (pubkey_bytes: bytes)

text \<open>\<open>solders.keypair.Keypair\<close>: the secret bytes and the public key they authorise.\<close>

datatype keypair = Keypair (secret_bytes: bytes) (keypair_pubkey: pubkey)

text \<open>\<open>solders.instruction.AccountMeta\<close> and \<open>Instruction\<close>, with the library's field names.\<close>

datatype account_meta =
  AccountMeta (meta_pubkey: pubkey) (is_signer: bool) (is_writable: bool)

datatype instruction =
  Instruction (program_id: pubkey) (data: bytes) (accounts: "account_meta list")

text \<open>
  The constants imported from \<open>bonk_mcp.settings\<close>.  That module is not part of the
  sources at hand, so its values are a parameter of every function that reads them.
  The source passes each through \<open>Pubkey.from_string(str(\<dots>))\<close>, which yields the same
  address again.
\<close>

record settings =
  TOKEN_PROGRAM :: pubkey
  WSOL_TOKEN :: pubkey
  ASSOC_TOKEN_ACC_PROG :: pubkey
  SYSTEM_PROGRAM :: pubkey
  RENT :: pubkey
  SOL_DECIMAL :: nat

subsection \<open>Exceptions\<close>

text \<open>
  A raised exception is a value: its class and the text \<open>str(e)\<close>.  The classes are
  the ones the program meets; \<open>Exception\<close> stands for every other subclass of
  \<open>Exception\<close>, \<open>BaseException\<close> for every other class outside it (a cancelled task, for
  one).  A handler \<open>except Exception\<close> catches exactly the classes of \<open>is_Exception\<close>.
\<close>

datatype exc_class =
    KeyboardInterrupt
  | SystemExit int
  | BaseException
  | Exception
  | NameError
  | AttributeError
  | KeyError
  | TypeError
  | ValueError
  | OverflowError

datatype exc = Exc (exc_class: exc_class) (exc_str: string)

fun is_Exception :: "exc_class \<Rightarrow> bool" where
  "is_Exception KeyboardInterrupt = False"
| "is_Exception (SystemExit code) = False"
| "is_Exception BaseException = False"
| "is_Exception c = True"

section \<open>Key and account resolver, instruction builder (utils.py)\<close>

text \<open>The SPL token instruction discriminators.\<close>

definition SPL_TOKEN_INITIALIZE_ACCOUNT :: bytes where
  "SPL_TOKEN_INITIALIZE_ACCOUNT = [1]"

definition SPL_TOKEN_CLOSE_ACCOUNT :: bytes where
  "SPL_TOKEN_CLOSE_ACCOUNT = [9]"

text \<open>
  \<open>get_associated_token_address\<close>.  The derivation \<open>Pubkey.find_program_address\<close>
  belongs to the library; it is the argument \<open>find_program_address\<close>, from seeds and a
  program id to an address and a bump byte.
\<close>

type_synonym pda_search = "bytes list \<Rightarrow> pubkey \<Rightarrow> pubkey \<times> 8 word"

definition get_associated_token_address ::
  "pda_search \<Rightarrow> settings \<Rightarrow> pubkey \<Rightarrow> pubkey \<Rightarrow> pubkey" where
  "get_associated_token_address find_program_address cfg owner mint =
     (let token_program_pubkey = TOKEN_PROGRAM cfg;
          assoc_prog = ASSOC_TOKEN_ACC_PROG cfg;
          seeds = [pubkey_bytes owner, pubkey_bytes token_program_pubkey, pubkey_bytes mint]
      in fst (find_program_address seeds assoc_prog))"

definition create_associated_token_account_instruction ::
  "pda_search \<Rightarrow> settings \<Rightarrow> pubkey \<Rightarrow> pubkey \<Rightarrow> pubkey \<Rightarrow> pubkey \<times> instruction" where
  "create_associated_token_account_instruction find_program_address cfg payer owner mint =
     (let ata = get_associated_token_address find_program_address cfg owner mint;
          assoc_prog = ASSOC_TOKEN_ACC_PROG cfg;
          token_prog = TOKEN_PROGRAM cfg;
          system_prog = SYSTEM_PROGRAM cfg;
          rent_sysvar = RENT cfg;
          metas =
            [AccountMeta payer True True,
             AccountMeta ata False True,
             AccountMeta owner False False,
             AccountMeta mint False False,
             AccountMeta system_prog False False,
             AccountMeta token_prog False False,
             AccountMeta rent_sysvar False False];
          ix = Instruction assoc_prog [] metas
      in (ata, ix))"

text \<open>
  \<open>create_or_get_token_account\<close>.  The query \<open>client.get_account_info(ata)\<close> is the
  argument \<open>get_account_info\<close>: it raises, or answers with \<open>info.value\<close>, which is
  \<open>None\<close> when no account lives at the address.  The handler is \<open>except Exception\<close>, so
  an exception of another class leaves the function.
\<close>

definition create_or_get_token_account ::
  "pda_search \<Rightarrow> settings \<Rightarrow> (pubkey \<Rightarrow> exc + 'info option) \<Rightarrow>
     pubkey \<Rightarrow> pubkey \<Rightarrow> pubkey \<Rightarrow> exc + pubkey \<times> instruction option" where
  "create_or_get_token_account find_program_address cfg get_account_info payer owner mint =
     (let ata = get_associated_token_address find_program_address cfg owner mint;
          create = Inr (case create_associated_token_account_instruction
                               find_program_address cfg payer owner mint of
                          (ata', ix) \<Rightarrow> (ata', Some ix))
      in case get_account_info ata of
           Inr (Some v) \<Rightarrow> Inr (ata, None)
         | Inr None \<Rightarrow> create
         | Inl e \<Rightarrow> if is_Exception (exc_class e) then create else Inl e)"

text \<open>\<open>get_close_wsol_instruction\<close>.\<close>

definition get_close_wsol_instruction :: "settings \<Rightarrow> pubkey \<Rightarrow> pubkey \<Rightarrow> instruction" where
  "get_close_wsol_instruction cfg wsol_token_account owner =
     Instruction (TOKEN_PROGRAM cfg) SPL_TOKEN_CLOSE_ACCOUNT
       [AccountMeta wsol_token_account False True,
        AccountMeta owner False True,
        AccountMeta owner True False]"

section \<open>Submission pipeline (utils.py)\<close>

text \<open>
  The names bound in the module \<open>utils\<close>: what its \<open>import\<close> statements bring in, its
  two constants and its functions.  A name that is neither here nor a builtin raises
  \<open>NameError\<close> when the running code reaches it.
\<close>

definition utils_globals :: "string list" where
  "utils_globals =
     [''struct'', ''traceback'', ''aiohttp'', ''json'', ''Optional'', ''Tuple'',
      ''Pubkey'', ''Instruction'', ''AccountMeta'', ''Keypair'',
      ''set_compute_unit_limit'', ''set_compute_unit_price'', ''Transaction'',
      ''CreateAccountParams'', ''create_account'', ''TxOpts'', ''RPCException'',
      ''client'', ''UNIT_PRICE'', ''UNIT_BUDGET'', ''TOKEN_PROGRAM'', ''SOL_DECIMAL'',
      ''WSOL_TOKEN'', ''ASSOC_TOKEN_ACC_PROG'', ''SYSTEM_PROGRAM'', ''RENT'',
      ''SPL_TOKEN_INITIALIZE_ACCOUNT'', ''SPL_TOKEN_CLOSE_ACCOUNT'',
      ''buffer_from_string'', ''setup_transaction'', ''get_associated_token_address'',
      ''create_associated_token_account_instruction'', ''create_or_get_token_account'',
      ''send_and_confirm_transaction'', ''download_image'', ''prepare_ipfs'',
      ''calculate_tokens_receive'', ''create_temporary_wsol_account'',
      ''get_close_wsol_instruction'', ''get_token_account_balance'']"

text \<open>
  \<open>await asyncio.sleep(backoff)\<close> inside a module whose global names are \<open>globals\<close>:
  the name \<open>asyncio\<close> is looked up first.
\<close>

definition asyncio_sleep :: "string list \<Rightarrow> nat \<Rightarrow> exc + unit" where
  "asyncio_sleep globals delay =
     (if ''asyncio'' \<in> set globals then Inr ()
      else Inl (Exc NameError ''name 'asyncio' is not defined''))"

text \<open>
  The RPC client as the pipeline uses it.  Both calls take the number of the attempt
  that makes them, so that a scripted transport can answer each attempt differently;
  they answer with \<open>txn_sig.value\<close> and with the confirmation status, or raise.
\<close>

record tx_opts =
  skip_preflight :: bool
  max_retries :: nat

record ('tx, 'signer, 'sig, 'st) rpc_client =
  send_transaction :: "nat \<Rightarrow> 'tx \<Rightarrow> 'signer list \<Rightarrow> tx_opts \<Rightarrow> exc + 'sig"
  confirm_transaction :: "nat \<Rightarrow> 'sig \<Rightarrow> exc + 'st"

text \<open>
  What the pipeline returns: the signature, the confirmation status, or \<open>False\<close>
  (\<open>Failure\<close>).  What it does on the way: submissions, confirmations and sleeps.
\<close>

datatype ('sig, 'st) send_result = Signature 'sig | Status 'st | Failure

datatype event = Submit nat | Confirm nat | Sleep nat

text \<open>
  The body of \<open>for attempt in range(1, 4)\<close>, over the attempts still to run, with the
  current \<open>backoff\<close> and the events so far.  Leaving the loop, by \<open>break\<close> or at its
  end, reaches \<open>return False\<close>.
\<close>

fun submission_loop ::
  "string list \<Rightarrow> ('tx, 'signer, 'sig, 'st) rpc_client \<Rightarrow> 'tx \<Rightarrow> 'signer list \<Rightarrow> bool \<Rightarrow> bool \<Rightarrow>
     nat list \<Rightarrow> nat \<Rightarrow> event list \<Rightarrow> (exc + ('sig, 'st) send_result) \<times> event list" where
  "submission_loop globals client txn signers skip confirm [] backoff trace =
     (Inr Failure, trace)"
| "submission_loop globals client txn signers skip confirm (attempt # rest) backoff trace =
     (case (case send_transaction client attempt txn signers
                   \<lparr>skip_preflight = skip, max_retries = 1\<rparr> of
              Inl e \<Rightarrow> (Inl e, trace @ [Submit attempt])
            | Inr txn_sig \<Rightarrow>
                if confirm then
                  (case confirm_transaction client attempt txn_sig of
                     Inl e \<Rightarrow> (Inl e, trace @ [Submit attempt, Confirm attempt])
                   | Inr status \<Rightarrow> (Inr (Status status), trace @ [Submit attempt, Confirm attempt]))
                else (Inr (Signature txn_sig), trace @ [Submit attempt])) of
        (Inr r, tr) \<Rightarrow> (Inr r, tr)
      | (Inl e, tr) \<Rightarrow>
          if \<not> is_Exception (exc_class e) then (Inl e, tr)
          else if sublist ''429'' (exc_str e) \<or> sublist ''Too Many Requests'' (exc_str e) then
            if attempt = 3 then (Inr Failure, tr)
            else (case asyncio_sleep globals backoff of
                    Inl e' \<Rightarrow> (Inl e', tr)
                  | Inr u \<Rightarrow>
                      submission_loop globals client txn signers skip confirm rest
                        (backoff * 2) (tr @ [Sleep backoff]))
          else (Inr Failure, tr))"

definition send_and_confirm_transaction ::
  "string list \<Rightarrow> ('tx, 'signer, 'sig, 'st) rpc_client \<Rightarrow> 'tx \<Rightarrow> 'signer list \<Rightarrow> bool \<Rightarrow> bool \<Rightarrow>
     (exc + ('sig, 'st) send_result) \<times> event list" where
  "send_and_confirm_transaction globals client txn signers skip confirm =
     submission_loop globals client txn signers skip confirm [1, 2, 3] 1 []"

text \<open>The number of submissions and the delays slept, read off the events.\<close>

fun submissions :: "event list \<Rightarrow> nat" where
  "submissions [] = 0"
| "submissions (Submit n # evs) = Suc (submissions evs)"
| "submissions (ev # evs) = submissions evs"

fun delays :: "event list \<Rightarrow> nat list" where
  "delays [] = []"
| "delays (Sleep d # evs) = d # delays evs"
| "delays (ev # evs) = delays evs"

section \<open>Python values\<close>

subsection \<open>Floats\<close>

text \<open>
  A Python \<open>float\<close> is an IEEE 754 binary64 number: a finite one is modelled by the
  rational number it denotes, next to the two infinities and NaN.  The two zeros are
  one value here (they compare equal and convert to the same integer).  Every
  operation computes the exact rational result and rounds it to the nearest number
  with a 53-bit significand, ties to the even significand, with exponents limited
  below by the subnormal range and above by overflow to infinity.
\<close>

datatype pyfloat = Finite rat | PosInf | NegInf | NaN

definition pow2 :: "int \<Rightarrow> rat" where
  "pow2 k = (if 0 \<le> k then 2 ^ nat k else 1 / 2 ^ nat (- k))"

text \<open>The exponent \<open>k\<close> with \<open>2 ^ k \<le> \<bar>x\<bar> < 2 ^ (k + 1)\<close>, for \<open>x\<close> other than zero.\<close>

definition ilog2 :: "rat \<Rightarrow> int" where
  "ilog2 x =
     (if 1 \<le> \<bar>x\<bar> then bitlen \<lfloor>\<bar>x\<bar>\<rfloor> - 1 else - bitlen (\<lceil>1 / \<bar>x\<bar>\<rceil> - 1))"

definition round_half_even :: "rat \<Rightarrow> int" where
  "round_half_even x =
     (let n = \<lfloor>x\<rfloor>; r = x - of_int n
      in if r < 1 / 2 then n else if 1 / 2 < r then n + 1 else if even n then n else n + 1)"

definition round_double :: "rat \<Rightarrow> pyfloat" where
  "round_double x =
     (if x = 0 then Finite 0
      else let e = max (ilog2 x - 52) (- 1074);
               m = round_half_even (x / pow2 e);
               y = of_int m * pow2 e
           in if 2 ^ 1024 \<le> \<bar>y\<bar> then (if 0 < x then PosInf else NegInf) else Finite y)"

text \<open>A decimal literal of the source, such as \<open>0.05\<close>, denotes the nearest double.\<close>

definition float_literal :: "rat \<Rightarrow> pyfloat" where
  "float_literal q = round_double q"

fun float_add :: "pyfloat \<Rightarrow> pyfloat \<Rightarrow> pyfloat" where
  "float_add (Finite a) (Finite b) = round_double (a + b)"
| "float_add NaN y = NaN"
| "float_add x NaN = NaN"
| "float_add PosInf NegInf = NaN"
| "float_add NegInf PosInf = NaN"
| "float_add PosInf y = PosInf"
| "float_add x PosInf = PosInf"
| "float_add NegInf y = NegInf"
| "float_add x NegInf = NegInf"

fun float_mul :: "pyfloat \<Rightarrow> pyfloat \<Rightarrow> pyfloat" where
  "float_mul (Finite a) (Finite b) = round_double (a * b)"
| "float_mul NaN y = NaN"
| "float_mul x NaN = NaN"
| "float_mul (Finite a) PosInf = (if a = 0 then NaN else if 0 < a then PosInf else NegInf)"
| "float_mul (Finite a) NegInf = (if a = 0 then NaN else if 0 < a then NegInf else PosInf)"
| "float_mul PosInf (Finite b) = (if b = 0 then NaN else if 0 < b then PosInf else NegInf)"
| "float_mul NegInf (Finite b) = (if b = 0 then NaN else if 0 < b then NegInf else PosInf)"
| "float_mul PosInf PosInf = PosInf"
| "float_mul NegInf NegInf = PosInf"
| "float_mul PosInf NegInf = NegInf"
| "float_mul NegInf PosInf = NegInf"

text \<open>Division by a finite divisor above zero (the program only divides by \<open>1e9\<close>).\<close>

fun float_div_pos :: "pyfloat \<Rightarrow> rat \<Rightarrow> pyfloat" where
  "float_div_pos (Finite a) d = round_double (a / d)"
| "float_div_pos x d = x"

text \<open>The comparisons \<open><\<close> and \<open>\<le>\<close>: false whenever NaN takes part.\<close>

fun float_lt :: "pyfloat \<Rightarrow> pyfloat \<Rightarrow> bool" where
  "float_lt (Finite a) (Finite b) = (a < b)"
| "float_lt NaN y = False"
| "float_lt x NaN = False"
| "float_lt x NegInf = False"
| "float_lt PosInf y = False"
| "float_lt NegInf y = True"
| "float_lt x PosInf = True"

fun float_le :: "pyfloat \<Rightarrow> pyfloat \<Rightarrow> bool" where
  "float_le (Finite a) (Finite b) = (a \<le> b)"
| "float_le NaN y = False"
| "float_le x NaN = False"
| "float_le NegInf y = True"
| "float_le x PosInf = True"
| "float_le x NegInf = False"
| "float_le PosInf y = False"

text \<open>\<open>float(n)\<close> for an integer, as the arithmetic does it when an \<open>int\<close> meets a \<open>float\<close>.\<close>

definition float_of_int :: "int \<Rightarrow> exc + pyfloat" where
  "float_of_int n =
     (case round_double (of_int n) of
        Finite y \<Rightarrow> Inr (Finite y)
      | other \<Rightarrow> Inl (Exc OverflowError ''int too large to convert to float''))"

text \<open>\<open>int(x)\<close> for a float: truncation towards zero.\<close>

fun int_of_float :: "pyfloat \<Rightarrow> exc + int" where
  "int_of_float (Finite a) = Inr (if 0 \<le> a then \<lfloor>a\<rfloor> else \<lceil>a\<rceil>)"
| "int_of_float NaN = Inl (Exc ValueError ''cannot convert float NaN to integer'')"
| "int_of_float x = Inl (Exc OverflowError ''cannot convert float infinity to integer'')"

subsection \<open>Values read from JSON\<close>

text \<open>
  What \<open>json.loads\<close> and \<open>response.json()\<close> hand to the program.  A \<open>dict\<close> is the list
  of its items (the keys of JSON objects are strings); a lookup takes the first item
  with the key.
\<close>

datatype pyval =
    PNone
  | PBool bool
  | PInt int
  | PFloat pyfloat
  | PStr string
  | PList "pyval list"
  | PDict "(string \<times> pyval) list"

text \<open>Truth value testing (\<open>if v\<close>, \<open>not v\<close>).\<close>

fun truthy :: "pyval \<Rightarrow> bool" where
  "truthy PNone = False"
| "truthy (PBool b) = b"
| "truthy (PInt n) = (n \<noteq> 0)"
| "truthy (PFloat x) = (x \<noteq> Finite 0)"
| "truthy (PStr s) = (s \<noteq> [])"
| "truthy (PList vs) = (vs \<noteq> [])"
| "truthy (PDict kvs) = (kvs \<noteq> [])"

text \<open>\<open>v[key]\<close> with a string key.\<close>

fun getitem :: "pyval \<Rightarrow> string \<Rightarrow> exc + pyval" where
  "getitem (PDict kvs) key =
     (case map_of kvs key of Some v \<Rightarrow> Inr v | None \<Rightarrow> Inl (Exc KeyError key))"
| "getitem (PList vs) key = Inl (Exc TypeError ''list indices must be integers or slices, not str'')"
| "getitem (PStr s) key = Inl (Exc TypeError ''string indices must be integers'')"
| "getitem v key = Inl (Exc TypeError ''object is not subscriptable'')"

text \<open>\<open>v[k1][k2]...\<close>, left to right.\<close>

fun getpath :: "pyval \<Rightarrow> string list \<Rightarrow> exc + pyval" where
  "getpath v [] = Inr v"
| "getpath v (key # keys) =
     (case getitem v key of Inl e \<Rightarrow> Inl e | Inr w \<Rightarrow> getpath w keys)"

text \<open>\<open>key in v\<close> with a string key.\<close>

fun contains :: "string \<Rightarrow> pyval \<Rightarrow> exc + bool" where
  "contains key (PDict kvs) = Inr (key \<in> set (map fst kvs))"
| "contains key (PList vs) = Inr (PStr key \<in> set vs)"
| "contains key (PStr s) = Inr (sublist key s)"
| "contains key v = Inl (Exc TypeError ''argument is not iterable'')"

text \<open>What \<open>for x in v\<close> runs through.\<close>

fun iterate :: "pyval \<Rightarrow> exc + pyval list" where
  "iterate (PList vs) = Inr vs"
| "iterate (PDict kvs) = Inr (map (\<lambda>kv. PStr (fst kv)) kvs)"
| "iterate (PStr s) = Inr (map (\<lambda>c. PStr [c]) s)"
| "iterate v = Inl (Exc TypeError ''object is not iterable'')"

text \<open>\<open>v.get(key)\<close>: only a \<open>dict\<close> has the method.\<close>

fun dict_get :: "pyval \<Rightarrow> string \<Rightarrow> exc + pyval" where
  "dict_get (PDict kvs) key = Inr (case map_of kvs key of Some v \<Rightarrow> v | None \<Rightarrow> PNone)"
| "dict_get v key = Inl (Exc AttributeError ''object has no attribute get'')"

text \<open>
  \<open>a + b\<close> on numbers: integers add exactly, a \<open>bool\<close> counts as 0 or 1, and once a
  float takes part the other operand is converted and the sum is rounded.
\<close>

fun as_number :: "pyval \<Rightarrow> (int + pyfloat) option" where
  "as_number (PInt n) = Some (Inl n)"
| "as_number (PBool b) = Some (Inl (if b then 1 else 0))"
| "as_number (PFloat x) = Some (Inr x)"
| "as_number v = None"

fun number_add :: "int + pyfloat \<Rightarrow> int + pyfloat \<Rightarrow> exc + pyval" where
  "number_add (Inl m) (Inl n) = Inr (PInt (m + n))"
| "number_add (Inl m) (Inr y) =
     (case float_of_int m of Inl e \<Rightarrow> Inl e | Inr x \<Rightarrow> Inr (PFloat (float_add x y)))"
| "number_add (Inr x) (Inl n) =
     (case float_of_int n of Inl e \<Rightarrow> Inl e | Inr y \<Rightarrow> Inr (PFloat (float_add x y)))"
| "number_add (Inr x) (Inr y) = Inr (PFloat (float_add x y))"

definition py_add :: "pyval \<Rightarrow> pyval \<Rightarrow> exc + pyval" where
  "py_add a b =
     (case (as_number a, as_number b) of
        (Some m, Some n) \<Rightarrow> number_add m n
      | other \<Rightarrow> Inl (Exc TypeError ''unsupported operand type(s) for +''))"

text \<open>\<open>v / 1e9\<close>.\<close>

definition div_1e9 :: "pyval \<Rightarrow> exc + pyfloat" where
  "div_1e9 v =
     (case as_number v of
        Some (Inl n) \<Rightarrow>
          (case float_of_int n of Inl e \<Rightarrow> Inl e | Inr x \<Rightarrow> Inr (float_div_pos x (10 ^ 9)))
      | Some (Inr x) \<Rightarrow> Inr (float_div_pos x (10 ^ 9))
      | None \<Rightarrow> Inl (Exc TypeError ''unsupported operand type(s) for /''))"

text \<open>\<open>try: body / except Exception: handler\<close>.\<close>

definition except_Exception :: "exc + 'a \<Rightarrow> (exc \<Rightarrow> exc + 'a) \<Rightarrow> exc + 'a" where
  "except_Exception body handler =
     (case body of
        Inr v \<Rightarrow> Inr v
      | Inl e \<Rightarrow> if is_Exception (exc_class e) then handler e else Inl e)"

subsection \<open>Text\<close>

text \<open>
  Text is a list of characters with codes below 256.  \<open>str.strip()\<close> removes the
  white space of that range from both ends; \<open>str.encode("utf-8")\<close> is only applied to
  ASCII text, where it yields the character codes.
\<close>

definition is_space :: "char \<Rightarrow> bool" where
  "is_space c =
     (let n = (of_char c :: nat)
      in (9 \<le> n \<and> n \<le> 13) \<or> (28 \<le> n \<and> n \<le> 32) \<or> n = 133 \<or> n = 160)"

definition strip :: "string \<Rightarrow> string" where
  "strip s = rev (dropWhile is_space (rev (dropWhile is_space s)))"

definition encode :: "string \<Rightarrow> bytes" where
  "encode s = map (\<lambda>c. of_nat (of_char c)) s"

section \<open>Metadata uploader (utils.py)\<close>

text \<open>
  The outside world of the uploader: an HTTP GET (status and body), the two POSTs
  (status and response text), the file system and \<open>json.loads\<close>, which answers \<open>None\<close>
  here where it raises \<open>JSONDecodeError\<close>.  Request headers are fixed and left out.
\<close>

record world =
  http_get :: "string \<Rightarrow> exc + nat \<times> bytes"
  http_post_bytes :: "string \<Rightarrow> bytes \<Rightarrow> exc + nat \<times> string"
  http_post_json :: "string \<Rightarrow> pyval \<Rightarrow> exc + nat \<times> string"
  read_file :: "string \<Rightarrow> exc + bytes"
  json_loads :: "string \<Rightarrow> pyval option"

definition download_image :: "world \<Rightarrow> string \<Rightarrow> exc + bytes option" where
  "download_image w image_url =
     except_Exception
       (case http_get w image_url of
          Inl e \<Rightarrow> Inl e
        | Inr (status, body) \<Rightarrow> if status = 200 then Inr (Some body) else Inr None)
       (\<lambda>e. Inr None)"

definition PINATA_PREFIX :: string where
  "PINATA_PREFIX = ''https://sapphire-working-koi-276.mypinata.cloud/ipfs/''"

definition DEFAULT_IMAGE_URL :: string where
  "DEFAULT_IMAGE_URL =
     ''https://sapphire-working-koi-276.mypinata.cloud/ipfs/bafybeihpy352xnqgn74nrjj6bgxndrss5nbqix4kfhwfanoyo766tgwzz4''"

definition CRLF :: string where
  "CRLF = [CHR 0x0D, CHR 0x0A]"

definition multipart_body :: "bytes \<Rightarrow> bytes" where
  "multipart_body data_to_upload =
     (let boundary = ''----WebKitFormBoundarymkE1BAuPXiGrhrdB''
      in encode (''--'' @ boundary @ CRLF)
         @ encode (''Content-Disposition: form-data; name='' @ [CHR 0x22] @ ''image''
                   @ [CHR 0x22] @ ''; filename='' @ [CHR 0x22] @ ''image.jpg'' @ [CHR 0x22] @ CRLF)
         @ encode (''Content-Type: image/jpeg'' @ CRLF @ CRLF)
         @ data_to_upload
         @ encode (CRLF @ ''--'' @ boundary @ ''--'' @ CRLF))"

text \<open>An optional string argument as the value the variable holds.\<close>

fun str_or_none :: "string option \<Rightarrow> pyval" where
  "str_or_none None = PNone"
| "str_or_none (Some s) = PStr s"

text \<open>
  The choice of \<open>data_to_upload\<close> (lines 180 to 192 of \<open>prepare_ipfs\<close>): the bytes given,
  else the file, else the download; a file that cannot be read leaves it \<open>None\<close>.
\<close>

definition resolve_image_data ::
  "world \<Rightarrow> string option \<Rightarrow> bytes option \<Rightarrow> string option \<Rightarrow> exc + bytes option" where
  "resolve_image_data w image_url image_data file =
     (case image_data of
        Some (b # bs) \<Rightarrow> Inr (Some (b # bs))
      | other \<Rightarrow>
          (case file of
             Some (c # cs) \<Rightarrow>
               except_Exception
                 (case read_file w (c # cs) of Inl e \<Rightarrow> Inl e | Inr content \<Rightarrow> Inr (Some content))
                 (\<lambda>e. Inr None)
           | other \<Rightarrow>
               (case image_url of
                  Some (c # cs) \<Rightarrow> download_image w (c # cs)
                | other \<Rightarrow> Inr None)))"

text \<open>
  The image upload (lines 195 to 228), entered with the current value of the variable
  \<open>image_url\<close>.  The answer \<open>None\<close> is the \<open>return None\<close> of line 228; \<open>Some url\<close> goes on
  with \<open>image_url = url\<close>.
\<close>

definition upload_image :: "world \<Rightarrow> pyval \<Rightarrow> bytes \<Rightarrow> exc + pyval option" where
  "upload_image w image_url data_to_upload =
     (case http_post_bytes w ''https://gated.chat/upload/img'' (multipart_body data_to_upload) of
        Inl e \<Rightarrow> Inl e
      | Inr (status, response_text) \<Rightarrow>
          (case (if status = 200 then
                   if prefix ''https://'' response_text then Inr (PStr (strip response_text))
                   else (case json_loads w response_text of
                           None \<Rightarrow> Inr image_url
                         | Some result \<Rightarrow> dict_get result ''url'')
                 else Inr image_url) of
             Inl e \<Rightarrow> Inl e
           | Inr image_url' \<Rightarrow> if \<not> truthy image_url' then Inr None else Inr (Some image_url')))"

text \<open>The first half of \<open>prepare_ipfs\<close> (lines 175 to 231): the image URL to put in the metadata.\<close>

definition resolve_image_url ::
  "world \<Rightarrow> string option \<Rightarrow> bytes option \<Rightarrow> string option \<Rightarrow> exc + pyval option" where
  "resolve_image_url w image_url image_data file =
     (if (case image_url of Some url \<Rightarrow> url \<noteq> [] \<and> prefix PINATA_PREFIX url | None \<Rightarrow> False)
      then Inr (Some (str_or_none image_url))
      else
        (case resolve_image_data w image_url image_data file of
           Inl e \<Rightarrow> Inl e
         | Inr data_to_upload \<Rightarrow>
             (case (case data_to_upload of
                      Some (b # bs) \<Rightarrow> upload_image w (str_or_none image_url) (b # bs)
                    | other \<Rightarrow> Inr (Some (str_or_none image_url))) of
                Inl e \<Rightarrow> Inl e
              | Inr None \<Rightarrow> Inr None
              | Inr (Some url) \<Rightarrow>
                  Inr (Some (if \<not> truthy url then PStr DEFAULT_IMAGE_URL else url)))))"

definition metadata_dict ::
  "string \<Rightarrow> string \<Rightarrow> string \<Rightarrow> string \<Rightarrow> string \<Rightarrow> string \<Rightarrow> pyval \<Rightarrow> (string \<times> pyval) list" where
  "metadata_dict name symbol description twitter telegram website image_url =
     [(''name'', PStr name), (''symbol'', PStr symbol), (''description'', PStr description),
      (''createdOn'', PStr ''https://bonk.fun''), (''image'', image_url)]
     @ (if twitter \<noteq> [] then [(''twitter'', PStr twitter)] else [])
     @ (if telegram \<noteq> [] then [(''telegram'', PStr telegram)] else [])
     @ (if website \<noteq> [] then [(''website'', PStr website)] else [])"

text \<open>The metadata upload (lines 258 to 277); \<open>PNone\<close> is the \<open>return None\<close> of line 277.\<close>

definition upload_metadata :: "world \<Rightarrow> (string \<times> pyval) list \<Rightarrow> exc + pyval" where
  "upload_metadata w metadata =
     (case http_post_json w ''https://gated.chat/upload/meta'' (PDict metadata) of
        Inl e \<Rightarrow> Inl e
      | Inr (status, response_text) \<Rightarrow>
          if status = 200 then
            if prefix ''https://'' response_text then Inr (PStr (strip response_text))
            else (case json_loads w response_text of
                    None \<Rightarrow> Inr PNone
                  | Some result \<Rightarrow>
                      (case dict_get result ''url'' of
                         Inl e \<Rightarrow> Inl e
                       | Inr metadata_uri \<Rightarrow>
                           if truthy metadata_uri then Inr metadata_uri else Inr PNone))
          else Inr PNone)"

definition prepare_ipfs ::
  "world \<Rightarrow> string \<Rightarrow> string \<Rightarrow> string \<Rightarrow> string \<Rightarrow> string \<Rightarrow> string \<Rightarrow>
     string option \<Rightarrow> bytes option \<Rightarrow> string option \<Rightarrow> exc + pyval" where
  "prepare_ipfs w name symbol description twitter telegram website image_url image_data file =
     except_Exception
       (case resolve_image_url w image_url image_data file of
          Inl e \<Rightarrow> Inl e
        | Inr None \<Rightarrow> Inr PNone
        | Inr (Some url) \<Rightarrow>
            upload_metadata w
              (metadata_dict name symbol description twitter telegram website url))
       (\<lambda>e. Inr PNone)"

section \<open>Temporary wrapped-native account (utils.py)\<close>

text \<open>
  The parameters of \<open>solders.system_program.create_account\<close>, each field with the
  prefix \<open>param\<close>.  The library function itself is an argument.
\<close>

datatype create_account_params =
  CreateAccountParams (param_from_pubkey: pubkey) (param_to_pubkey: pubkey)
    (param_lamports: int) (param_space: nat) (param_owner: pubkey)

text \<open>
  The call \<open>create_account(CreateAccountParams(...))\<close>.  The library reads \<open>lamports\<close> as
  an unsigned 64-bit integer and raises \<open>TypeError\<close> when the Python integer does not fit;
  otherwise it builds the instruction, which is what the argument \<open>create_account\<close>
  computes.
\<close>

definition lamports_out_of_range :: exc where
  "lamports_out_of_range =
     Exc TypeError ''failed to extract field CreateAccountParams.lamports''"

definition call_create_account ::
  "(create_account_params \<Rightarrow> instruction) \<Rightarrow> create_account_params \<Rightarrow> exc + instruction" where
  "call_create_account create_account params =
     (if param_lamports params < 0 \<or> 2 ^ 64 \<le> param_lamports params
      then Inl lamports_out_of_range
      else Inr (create_account params))"

text \<open>
  \<open>create_temporary_wsol_account\<close>.  \<open>new_keypair\<close> is what \<open>Keypair()\<close> generates,
  \<open>get_minimum_balance_for_rent_exemption\<close> the RPC query with the \<open>value\<close> of its answer.
\<close>

definition create_temporary_wsol_account ::
  "settings \<Rightarrow> keypair \<Rightarrow> (nat \<Rightarrow> exc + int) \<Rightarrow> (create_account_params \<Rightarrow> instruction) \<Rightarrow>
     pubkey \<Rightarrow> pyfloat \<Rightarrow> exc + pubkey \<times> instruction list \<times> keypair" where
  "create_temporary_wsol_account cfg new_keypair get_minimum_balance_for_rent_exemption
       create_account payer_pubkey amount =
     (let wsol_keypair = new_keypair;
          wsol_token_account = keypair_pubkey wsol_keypair
      in case except_Exception (get_minimum_balance_for_rent_exemption 165)
                (\<lambda>e. Inr 2039280) of
           Inl e \<Rightarrow> Inl e
         | Inr min_rent \<Rightarrow>
             (case float_of_int (10 ^ SOL_DECIMAL cfg) of
                Inl e \<Rightarrow> Inl e
              | Inr scale \<Rightarrow>
                  (case int_of_float (float_mul amount scale) of
                     Inl e \<Rightarrow> Inl e
                   | Inr base_units \<Rightarrow>
                       (let lamports = min_rent + base_units
                        in case call_create_account create_account
                                  (CreateAccountParams payer_pubkey wsol_token_account lamports
                                     165 (TOKEN_PROGRAM cfg)) of
                             Inl e \<Rightarrow> Inl e
                           | Inr create_wsol_account_ix \<Rightarrow>
                               (let init_wsol_account_ix =
                                      Instruction (TOKEN_PROGRAM cfg) SPL_TOKEN_INITIALIZE_ACCOUNT
                                        [AccountMeta wsol_token_account False True,
                                         AccountMeta (WSOL_TOKEN cfg) False False,
                                         AccountMeta payer_pubkey False False,
                                         AccountMeta (RENT cfg) False False]
                                in Inr (wsol_token_account,
                                        [create_wsol_account_ix, init_wsol_account_ix],
                                        wsol_keypair))))))"

section \<open>Balance oracle (run\_launch.py)\<close>

text \<open>
  Both queries post a JSON payload to the RPC endpoint and read the parsed answer:
  \<open>rpc_post\<close> is the round trip \<open>session.post(RPC_URL, json=payload)\<close> followed by
  \<open>r.json()\<close>, which raises or yields a value.  \<open>to_base58\<close> is \<open>str\<close> on an address.
\<close>

definition get_wallet_balance ::
  "(pyval \<Rightarrow> exc + pyval) \<Rightarrow> (pubkey \<Rightarrow> string) \<Rightarrow> pubkey \<Rightarrow> exc + pyfloat" where
  "get_wallet_balance rpc_post to_base58 pubkey =
     (let payload =
            PDict [(''jsonrpc'', PStr ''2.0''), (''id'', PInt 1), (''method'', PStr ''getBalance''),
                   (''params'', PList [PStr (to_base58 pubkey)])]
      in case except_Exception
                (case rpc_post payload of
                   Inl e \<Rightarrow> Inl e
                 | Inr reply \<Rightarrow>
                     (case contains ''result'' reply of
                        Inl e \<Rightarrow> Inl e
                      | Inr False \<Rightarrow> Inr None
                      | Inr True \<Rightarrow>
                          (case getpath reply [''result'', ''value''] of
                             Inl e \<Rightarrow> Inl e
                           | Inr lamports \<Rightarrow>
                               (case div_1e9 lamports of
                                  Inl e \<Rightarrow> Inl e
                                | Inr balance \<Rightarrow> Inr (Some balance)))))
                (\<lambda>e. Inr None) of
           Inl e \<Rightarrow> Inl e
         | Inr (Some balance) \<Rightarrow> Inr balance
         | Inr None \<Rightarrow> Inr (Finite 0))"

text \<open>
  The loop \<open>for acc in accounts\<close> of \<open>get_token_balance\<close>, over the accounts still to
  visit and with the running \<open>total\<close> (\<open>tot\<close> here).
\<close>

fun sum_ui_amounts :: "pyval \<Rightarrow> pyval list \<Rightarrow> exc + pyval" where
  "sum_ui_amounts tot [] = Inr tot"
| "sum_ui_amounts tot (acc # accs) =
     (case getpath acc
             [''account'', ''data'', ''parsed'', ''info'', ''tokenAmount'', ''uiAmount''] of
        Inl e \<Rightarrow> Inl e
      | Inr amt_str \<Rightarrow>
          (case py_add tot (if amt_str \<noteq> PNone then amt_str else PInt 0) of
             Inl e \<Rightarrow> Inl e
           | Inr tot' \<Rightarrow> sum_ui_amounts tot' accs))"

definition get_token_balance ::
  "(pyval \<Rightarrow> exc + pyval) \<Rightarrow> string \<Rightarrow> string \<Rightarrow> exc + pyval" where
  "get_token_balance rpc_post owner_pubkey mint_address =
     (let payload =
            PDict [(''jsonrpc'', PStr ''2.0''), (''id'', PInt 1),
                   (''method'', PStr ''getTokenAccountsByOwner''),
                   (''params'', PList [PStr owner_pubkey,
                                       PDict [(''mint'', PStr mint_address)],
                                       PDict [(''encoding'', PStr ''jsonParsed'')]])]
      in except_Exception
           (case rpc_post payload of
              Inl e \<Rightarrow> Inl e
            | Inr res \<Rightarrow>
                (case (case contains ''result'' res of
                         Inl e \<Rightarrow> Inl e
                       | Inr False \<Rightarrow> Inr False
                       | Inr True \<Rightarrow>
                           (case getpath res [''result'', ''value''] of
                              Inl e \<Rightarrow> Inl e
                            | Inr v \<Rightarrow> Inr (truthy v))) of
                   Inl e \<Rightarrow> Inl e
                 | Inr False \<Rightarrow> Inr (PFloat (Finite 0))
                 | Inr True \<Rightarrow>
                     (case getpath res [''result'', ''value''] of
                        Inl e \<Rightarrow> Inl e
                      | Inr account_list \<Rightarrow>
                          (case iterate account_list of
                             Inl e \<Rightarrow> Inl e
                           | Inr accs \<Rightarrow> sum_ui_amounts (PInt 0) accs))))
           (\<lambda>e. Inr PNone))"

section \<open>Orchestrator and entry point (run\_launch.py)\<close>

definition INITIAL_BUY_SOL :: pyfloat where
  "INITIAL_BUY_SOL = float_literal (5 / 100)"

text \<open>\<open>sys.exit(1)\<close> raises \<open>SystemExit\<close> with the exit status.\<close>

definition sys_exit :: "int \<Rightarrow> exc + 'a" where
  "sys_exit code = Inl (Exc (SystemExit code) [])"

definition validate_environment :: "string option \<Rightarrow> exc + unit" where
  "validate_environment keypair_b58 =
     (case keypair_b58 of Some (c # cs) \<Rightarrow> Inr () | other \<Rightarrow> sys_exit 1)"

text \<open>
  \<open>make_keypair_from_base58\<close>, with \<open>base58.b58decode\<close> and \<open>Keypair.from_bytes\<close> as
  arguments.  Everything the \<open>try\<close> block raises, its own \<open>ValueError\<close> included, ends in
  \<open>sys.exit(1)\<close>; decoding \<open>None\<close> raises as well.
\<close>

definition make_keypair_from_base58 ::
  "(string \<Rightarrow> exc + bytes) \<Rightarrow> (bytes \<Rightarrow> exc + keypair) \<Rightarrow> string option \<Rightarrow> exc + keypair" where
  "make_keypair_from_base58 b58decode keypair_from_bytes b58 =
     except_Exception
       (case b58 of
          None \<Rightarrow> Inl (Exc TypeError ''a bytes-like object is required'')
        | Some s \<Rightarrow>
            (case b58decode s of
               Inl e \<Rightarrow> Inl e
             | Inr private_key_bytes \<Rightarrow>
                 if length private_key_bytes \<noteq> 64
                 then Inl (Exc ValueError ''Expected 64 bytes keypair'')
                 else keypair_from_bytes private_key_bytes))
       (\<lambda>e. sys_exit 1)"

text \<open>
  What \<open>main\<close> awaits or calls outside itself, each with the outcome it has in the run
  at hand: the environment variable, the connectivity test, the two library functions
  of the key decoding, the generated mint key, the balance query, the metadata upload
  \<open>prepare_ipfs_with_ssl_fix(NAME, SYMBOL, DESCRIPTION, IMAGE_URL)\<close>, the launch, the
  initial buy and the token balance query.
\<close>

record env =
  KEYPAIR_B58 :: "string option"
  call_test_ssl_connection :: "exc + unit"
  b58decode :: "string \<Rightarrow> exc + bytes"
  keypair_from_bytes :: "bytes \<Rightarrow> exc + keypair"
  new_mint_keypair :: keypair
  call_get_wallet_balance :: "pubkey \<Rightarrow> exc + pyfloat"
  call_prepare_ipfs_with_ssl_fix :: "exc + pyval"
  call_launch_token_with_buy :: "keypair \<Rightarrow> keypair \<Rightarrow> pyval \<Rightarrow> exc + pyval"
  call_do_initial_buy :: "keypair \<Rightarrow> pubkey \<Rightarrow> pyfloat \<Rightarrow> pyval \<Rightarrow> exc + bool"
  call_get_token_balance :: "pubkey \<Rightarrow> pubkey \<Rightarrow> exc + pyval"

text \<open>The calls \<open>main\<close> has made, in order.\<close>

datatype call =
    TestSslConnection
  | GetWalletBalance
  | PrepareIpfs
  | LaunchTokenWithBuy
  | DoInitialBuy
  | GetTokenBalance

text \<open>
  \<open>main\<close>: its outcome (it returns, or an exception leaves it) and the calls made.
\<close>

definition main :: "env \<Rightarrow> (exc + unit) \<times> call list" where
  "main env =
     (case validate_environment (KEYPAIR_B58 env) of
        Inl e \<Rightarrow> (Inl e, [])
      | Inr u \<Rightarrow>
     (case call_test_ssl_connection env of
        Inl e \<Rightarrow> (Inl e, [TestSslConnection])
      | Inr u \<Rightarrow>
     (case make_keypair_from_base58 (b58decode env) (keypair_from_bytes env) (KEYPAIR_B58 env) of
        Inl e \<Rightarrow> (Inl e, [TestSslConnection])
      | Inr payer \<Rightarrow>
     (let mint = new_mint_keypair env
      in case call_get_wallet_balance env (keypair_pubkey payer) of
        Inl e \<Rightarrow> (Inl e, [TestSslConnection, GetWalletBalance])
      | Inr balance \<Rightarrow>
          if float_lt balance (float_add INITIAL_BUY_SOL (float_literal (1 / 10)))
          then (Inr (), [TestSslConnection, GetWalletBalance])
          else
     (case call_prepare_ipfs_with_ssl_fix env of
        Inl e \<Rightarrow> (Inl e, [TestSslConnection, GetWalletBalance, PrepareIpfs])
      | Inr uri \<Rightarrow>
          if \<not> truthy uri
          then (Inr (), [TestSslConnection, GetWalletBalance, PrepareIpfs])
          else
     (case (case call_launch_token_with_buy env payer mint uri of
              Inl e \<Rightarrow> Inl e
            | Inr launch_result \<Rightarrow>
                (case dict_get launch_result ''error'' of
                   Inl e \<Rightarrow> Inl e
                 | Inr err \<Rightarrow> Inr (launch_result, err))) of
        Inl e \<Rightarrow> (Inl e, [TestSslConnection, GetWalletBalance, PrepareIpfs, LaunchTokenWithBuy])
      | Inr (launch_result, err) \<Rightarrow>
          if truthy err
          then (Inr (), [TestSslConnection, GetWalletBalance, PrepareIpfs, LaunchTokenWithBuy])
          else
     (let pdas = (case launch_result of
                    PDict kvs \<Rightarrow> (case map_of kvs ''pdas'' of Some v \<Rightarrow> v | None \<Rightarrow> PDict [])
                  | other \<Rightarrow> PDict [])
      in case call_do_initial_buy env payer (keypair_pubkey mint) INITIAL_BUY_SOL pdas of
        Inl e \<Rightarrow>
          (Inl e, [TestSslConnection, GetWalletBalance, PrepareIpfs, LaunchTokenWithBuy,
                   DoInitialBuy])
      | Inr bought \<Rightarrow>
          if \<not> bought
          then (Inr (), [TestSslConnection, GetWalletBalance, PrepareIpfs, LaunchTokenWithBuy,
                         DoInitialBuy])
          else
     (case call_get_token_balance env (keypair_pubkey payer) (keypair_pubkey mint) of
        Inl e \<Rightarrow>
          (Inl e, [TestSslConnection, GetWalletBalance, PrepareIpfs, LaunchTokenWithBuy,
                   DoInitialBuy, GetTokenBalance])
      | Inr token_balance \<Rightarrow>
          (Inr (), [TestSslConnection, GetWalletBalance, PrepareIpfs, LaunchTokenWithBuy,
                    DoInitialBuy, GetTokenBalance])))))))))"

text \<open>
  The block under \<open>if __name__ == "__main__"\<close>, given the outcome of
  \<open>asyncio.run(main())\<close>: what it writes and the exit status of the process.  A block
  that runs to its end leaves the interpreter with status 0; an exception no clause
  catches ends it with the status of \<open>SystemExit\<close>, or with a trace and status 1.
\<close>

datatype log_line = Printed string | Traceback exc

definition main_block :: "exc + unit \<Rightarrow> log_line list \<times> int" where
  "main_block outcome =
     (case outcome of
        Inr u \<Rightarrow> ([], 0)
      | Inl e \<Rightarrow>
          (case exc_class e of
             KeyboardInterrupt \<Rightarrow> ([Printed ''Cancelled by user''], 0)
           | SystemExit code \<Rightarrow> ([], code)
           | BaseException \<Rightarrow> ([Traceback e], 1)
           | other \<Rightarrow> ([Printed (''Fatal error: '' @ exc_str e), Traceback e], 0)))"

section \<open>What the specification says, and sample inputs\<close>





text \<open>Sample settings, a sample address derivation and sample addresses.\<close>

definition sample_settings :: settings where
  "sample_settings =
     \<lparr>TOKEN_PROGRAM = Pubkey [6], WSOL_TOKEN = Pubkey [7], ASSOC_TOKEN_ACC_PROG = Pubkey [8],
      SYSTEM_PROGRAM = Pubkey [0], RENT = Pubkey [9], SOL_DECIMAL = 9\<rparr>"

definition sample_pda_search :: pda_search where
  "sample_pda_search seeds program = (Pubkey (concat seeds @ pubkey_bytes program), 255)"

text \<open>A transport that answers every submission with a rate-limit error.\<close>

definition rate_limited_client :: "(unit, unit, string, unit) rpc_client" where
  "rate_limited_client =
     \<lparr>send_transaction = (\<lambda>attempt txn signers opts. Inl (Exc Exception ''429 Too Many Requests'')),
      confirm_transaction = (\<lambda>attempt txn_sig. Inr ())\<rparr>"

text \<open>A transport whose submissions fail with an error that is no rate limit.\<close>

definition rejecting_client :: "(unit, unit, string, unit) rpc_client" where
  "rejecting_client =
     \<lparr>send_transaction = (\<lambda>attempt txn signers opts. Inl (Exc Exception ''Blockhash not found'')),
      confirm_transaction = (\<lambda>attempt txn_sig. Inr ())\<rparr>"

text \<open>
  A world in which the image downloads, the image endpoint answers 500 and the metadata
  endpoint answers with a bare URI.
\<close>

definition image_endpoint_down :: world where
  "image_endpoint_down =
     \<lparr>http_get = (\<lambda>url. Inr (200, [255, 216, 255])),
      http_post_bytes = (\<lambda>url body. Inr (500, ''Internal Server Error'')),
      http_post_json = (\<lambda>url body. Inr (200, ''https://ipfs.example/meta.json'')),
      read_file = (\<lambda>path. Inl (Exc Exception ''No such file or directory'')),
      json_loads = (\<lambda>s. None)\<rparr>"

text \<open>An RPC endpoint that answers every query with the given JSON value.\<close>

definition answering :: "pyval \<Rightarrow> pyval \<Rightarrow> exc + pyval" where
  "answering reply payload = Inr reply"



text \<open>
  A run of \<open>main\<close> in which the key decodes, the balance query is \<open>get_wallet_balance\<close>
  against an endpoint reporting the given lamports, and every later step fails softly.
\<close>

definition sample_env :: "int \<Rightarrow> env" where
  "sample_env reported_lamports =
     \<lparr>KEYPAIR_B58 = Some ''sample'',
      call_test_ssl_connection = Inr (),
      b58decode = (\<lambda>s. Inr (replicate 64 1)),
      keypair_from_bytes = (\<lambda>bs. Inr (Keypair bs (Pubkey (drop 32 bs)))),
      new_mint_keypair = Keypair [2] (Pubkey [3]),
      call_get_wallet_balance =
        get_wallet_balance
          (answering (PDict [(''result'', PDict [(''value'', PInt reported_lamports)])]))
          (\<lambda>pubkey. ''address''),
      call_prepare_ipfs_with_ssl_fix = Inr PNone,
      call_launch_token_with_buy = (\<lambda>payer mint uri. Inr (PDict [(''error'', PStr ''down'')])),
      call_do_initial_buy = (\<lambda>payer mint amount pdas. Inr False),
      call_get_token_balance = (\<lambda>owner mint. Inr PNone)\<rparr>"


text \<open>A rent query that answers with 2039280 lamports, and one that fails.\<close>

definition rent_query_ok :: "nat \<Rightarrow> exc + int" where
  "rent_query_ok nbytes = Inr 2039280"

definition rent_query_down :: "nat \<Rightarrow> exc + int" where
  "rent_query_down nbytes = Inl (Exc Exception ''rpc down'')"

text \<open>
  A stand-in for the library's \<open>create_account\<close> that keeps every parameter visible in
  the instruction it builds.
\<close>

definition u64_le :: "int \<Rightarrow> bytes" where
  "u64_le n = map (\<lambda>i. of_int (n div 256 ^ i)) [0, 1, 2, 3, 4, 5, 6, 7]"

definition sample_create_account :: "create_account_params \<Rightarrow> instruction" where
  "sample_create_account params =
     Instruction (Pubkey [0])
       ([0, 0, 0, 0] @ u64_le (param_lamports params) @ u64_le (int (param_space params))
        @ pubkey_bytes (param_owner params))
       [AccountMeta (param_from_pubkey params) True True,
        AccountMeta (param_to_pubkey params) True True]"

section \<open>Properties\<close>

subsection \<open>Evaluating floats\<close>

text \<open>
  The rounding of a rational numeral is computed by the simplifier from the definitions
  and these equations.
\<close>

lemma floor_rat_numeral: "\<lfloor>numeral a / numeral b :: rat\<rfloor> = numeral a div numeral b"
  using floor_divide_of_int_eq [of "numeral a" "numeral b", where ?'a = rat] by simp

lemma ceiling_rat_numeral:
  "\<lceil>numeral a / numeral b :: rat\<rceil> = - ((- numeral a) div numeral b)"
  using ceiling_divide_eq_div [of "numeral a" "numeral b", where ?'a = rat] by simp

lemmas float_eval = float_literal_def round_double_def ilog2_def pow2_def round_half_even_def
  Let_def compute_bitlen floor_rat_numeral ceiling_rat_numeral

text \<open>\<open>ilog2\<close> is the binary exponent: \<open>2 ^ ilog2 x \<le> x < 2 ^ (ilog2 x + 1)\<close>.\<close>

lemma ilog2_bounds:
  assumes "0 < x"
  shows "pow2 (ilog2 x) \<le> x \<and> x < 2 * pow2 (ilog2 x)"
proof (cases "1 \<le> x")
  case True
  define n where "n = \<lfloor>x\<rfloor>"
  have n1: "1 \<le> n" using True by (simp add: n_def le_floor_iff)
  then have pos: "0 < n" by simp
  have b1: "1 \<le> bitlen n" using pos by (simp add: bitlen_alt_def)
  have lo: "2 ^ nat (bitlen n - 1) \<le> n" and hi: "n < 2 ^ nat (bitlen n)"
    using bitlen_bounds [OF pos] by simp_all
  have "rat_of_int (2 ^ nat (bitlen n - 1)) \<le> rat_of_int n" using lo by (simp only: of_int_le_iff)
  also have "\<dots> \<le> x" by (simp add: n_def)
  finally have L: "(2::rat) ^ nat (bitlen n - 1) \<le> x" by simp
  have "n + 1 \<le> 2 ^ nat (bitlen n)" using hi by simp
  then have "rat_of_int (n + 1) \<le> rat_of_int (2 ^ nat (bitlen n))" by (simp only: of_int_le_iff)
  moreover have "x < rat_of_int (n + 1)" using floor_correct [of x] by (simp add: n_def)
  ultimately have U: "x < (2::rat) ^ nat (bitlen n)" by simp
  have "nat (bitlen n) = Suc (nat (bitlen n - 1))" using b1 by simp
  then have "(2::rat) ^ nat (bitlen n) = 2 * 2 ^ nat (bitlen n - 1)" by simp
  with L U show ?thesis using True assms b1
    by (simp add: ilog2_def pow2_def n_def)
next
  case False
  then have x1: "x < 1" by simp
  define n where "n = \<lceil>1 / x\<rceil> - 1"
  have "1 < 1 / x" using assms x1 by simp
  then have "1 < \<lceil>1 / x\<rceil>" by (simp add: less_ceiling_iff)
  then have pos: "0 < n" by (simp add: n_def)
  have b1: "1 \<le> bitlen n" using pos by (simp add: bitlen_alt_def)
  have lo: "2 ^ nat (bitlen n - 1) \<le> n" and hi: "n < 2 ^ nat (bitlen n)"
    using bitlen_bounds [OF pos] by simp_all
  have nlt: "rat_of_int n < 1 / x" unfolding n_def
    by (metis ceiling_correct of_int_diff of_int_1)
  have nge: "1 / x \<le> rat_of_int (n + 1)" by (simp add: n_def)
  have "n + 1 \<le> 2 ^ nat (bitlen n)" using hi by simp
  then have "rat_of_int (n + 1) \<le> rat_of_int (2 ^ nat (bitlen n))" by (simp only: of_int_le_iff)
  also have "\<dots> = 2 ^ nat (bitlen n)" by simp
  finally have "1 / x \<le> 2 ^ nat (bitlen n)" using nge by simp
  then have L: "1 / 2 ^ nat (bitlen n) \<le> x" using assms
    by (simp add: field_simps)
  have "(2::rat) ^ nat (bitlen n - 1) = rat_of_int (2 ^ nat (bitlen n - 1))" by simp
  also have "\<dots> \<le> rat_of_int n" using lo by (simp only: of_int_le_iff)
  also note nlt
  finally have "2 ^ nat (bitlen n - 1) < 1 / x" .
  then have U': "x < 1 / 2 ^ nat (bitlen n - 1)" using assms by (simp add: field_simps)
  have "nat (bitlen n) = Suc (nat (bitlen n - 1))" using b1 by simp
  then have "(1::rat) / 2 ^ nat (bitlen n - 1) = 2 * (1 / 2 ^ nat (bitlen n))" by simp
  with L U' show ?thesis using False assms b1 pos
    by (simp add: ilog2_def pow2_def n_def)
qed


lemma float_of_int_1e9: "float_of_int (10 ^ 9) = Inr (Finite (10 ^ 9))"
  by (simp add: float_of_int_def float_eval)

lemma float_le_not_lt: "float_le a b \<Longrightarrow> \<not> float_lt b a"
  by (cases a; cases b) simp_all

text \<open>\<open>0.05 + 0.1\<close> is the double \<open>0.15000000000000002\<close>.\<close>

lemma threshold_value:
  "float_add INITIAL_BUY_SOL (float_literal (1 / 10)) = Finite (5404319552844596 / 2 ^ 55)"
  by (simp add: INITIAL_BUY_SOL_def float_eval)

subsection \<open>Instruction layouts\<close>

text \<open>
  C4.  For every payer, owner and mint, the instruction that
  \<open>create_associated_token_account_instruction\<close> builds has an empty payload and exactly
  seven account references, in this order and with these flags: payer (signer,
  writable), the derived associated account (writable), owner, mint, system program,
  token program and rent sysvar (the last five neither signer nor writable).
\<close>

theorem create_ata_instruction_layout:
  "data (snd (create_associated_token_account_instruction fpa cfg payer owner mint)) = []
   \<and> length (accounts (snd (create_associated_token_account_instruction fpa cfg payer owner mint))) = 7
   \<and> map meta_pubkey (accounts (snd (create_associated_token_account_instruction fpa cfg payer owner mint)))
       = [payer, get_associated_token_address fpa cfg owner mint, owner, mint,
          SYSTEM_PROGRAM cfg, TOKEN_PROGRAM cfg, RENT cfg]
   \<and> map is_signer (accounts (snd (create_associated_token_account_instruction fpa cfg payer owner mint)))
       = [True, False, False, False, False, False, False]
   \<and> map is_writable (accounts (snd (create_associated_token_account_instruction fpa cfg payer owner mint)))
       = [True, True, False, False, False, False, False]"
  by (simp add: create_associated_token_account_instruction_def Let_def)

text \<open>
  C5.  The InitializeAccount payload is the single byte 1 and the CloseAccount payload
  the single byte 9; the instruction of \<open>get_close_wsol_instruction\<close> carries the
  CloseAccount payload and lists exactly the account to close (writable, no signer), the
  owner as destination (writable, no signer) and the owner as authority (signer, not
  writable), in that order.
\<close>

theorem close_wsol_instruction_layout:
  "SPL_TOKEN_INITIALIZE_ACCOUNT = [1]
   \<and> SPL_TOKEN_CLOSE_ACCOUNT = [9]
   \<and> data (get_close_wsol_instruction cfg account owner) = [9]
   \<and> program_id (get_close_wsol_instruction cfg account owner) = TOKEN_PROGRAM cfg
   \<and> accounts (get_close_wsol_instruction cfg account owner)
       = [AccountMeta account False True, AccountMeta owner False True,
          AccountMeta owner True False]"
  by (simp add: get_close_wsol_instruction_def SPL_TOKEN_INITIALIZE_ACCOUNT_def
      SPL_TOKEN_CLOSE_ACCOUNT_def)

subsection \<open>Associated token account\<close>

text \<open>
  C10.  \<open>create_or_get_token_account\<close> returns the address of
  \<open>get_associated_token_address\<close> for the owner and the mint: with no instruction when
  the account-info query reports an account, with the creation instruction when it
  reports none, and with the creation instruction as well when the query raises an
  exception, which is swallowed.
\<close>

theorem create_or_get_token_account_cases:
  "(get_account_info (get_associated_token_address fpa cfg owner mint) = Inr (Some v) \<longrightarrow>
      create_or_get_token_account fpa cfg get_account_info payer owner mint
        = Inr (get_associated_token_address fpa cfg owner mint, None))
   \<and> (get_account_info (get_associated_token_address fpa cfg owner mint) = Inr None \<longrightarrow>
      create_or_get_token_account fpa cfg get_account_info payer owner mint
        = Inr (get_associated_token_address fpa cfg owner mint,
               Some (snd (create_associated_token_account_instruction fpa cfg payer owner mint))))
   \<and> (get_account_info (get_associated_token_address fpa cfg owner mint) = Inl e
        \<and> is_Exception (exc_class e) \<longrightarrow>
      create_or_get_token_account fpa cfg get_account_info payer owner mint
        = Inr (get_associated_token_address fpa cfg owner mint,
               Some (snd (create_associated_token_account_instruction fpa cfg payer owner mint))))"
  by (simp add: create_or_get_token_account_def create_associated_token_account_instruction_def
      Let_def)

theorem create_or_get_token_account_cases_witness:
  "create_or_get_token_account sample_pda_search sample_settings
       (\<lambda>a. Inr (Some ())) (Pubkey [1]) (Pubkey [2]) (Pubkey [3])
     = Inr (Pubkey [2, 6, 3, 8], None)
   \<and> create_or_get_token_account sample_pda_search sample_settings
       (\<lambda>a. Inr (None :: unit option)) (Pubkey [1]) (Pubkey [2]) (Pubkey [3])
     = Inr (Pubkey [2, 6, 3, 8],
            Some (snd (create_associated_token_account_instruction sample_pda_search
                    sample_settings (Pubkey [1]) (Pubkey [2]) (Pubkey [3]))))
   \<and> create_or_get_token_account sample_pda_search sample_settings
       (\<lambda>a. Inl (Exc Exception ''connection reset'') :: exc + unit option)
       (Pubkey [1]) (Pubkey [2]) (Pubkey [3])
     = Inr (Pubkey [2, 6, 3, 8],
            Some (snd (create_associated_token_account_instruction sample_pda_search
                    sample_settings (Pubkey [1]) (Pubkey [2]) (Pubkey [3]))))"
  using create_or_get_token_account_cases [of "\<lambda>a. Inr (Some ())" sample_pda_search
      sample_settings "Pubkey [2]" "Pubkey [3]" "()" "Pubkey [1]"]
    create_or_get_token_account_cases [of "\<lambda>a. Inr (None :: unit option)" sample_pda_search
      sample_settings "Pubkey [2]" "Pubkey [3]" "()" "Pubkey [1]"]
    create_or_get_token_account_cases
      [of "\<lambda>a. Inl (Exc Exception ''connection reset'') :: exc + unit option"
        sample_pda_search sample_settings "Pubkey [2]" "Pubkey [3]" "()" "Pubkey [1]"
        "Exc Exception ''connection reset''"]
  by (simp add: get_associated_token_address_def sample_pda_search_def sample_settings_def)

subsection \<open>Submission pipeline\<close>

text \<open>
  Were \<open>asyncio\<close> among the names of the module, a transport that answers every
  submission with a rate-limit error would be tried three times, with sleeps of 1 and 2
  in between, and the pipeline would return \<open>False\<close>.
\<close>

lemma send_rate_limited_with_asyncio:
  assumes "''asyncio'' \<in> set globals"
    and "\<And>n. \<exists>m. send_transaction client n txn signers \<lparr>skip_preflight = skip, max_retries = 1\<rparr>
                   = Inl (Exc Exception m)
                 \<and> (sublist ''429'' m \<or> sublist ''Too Many Requests'' m)"
  shows "send_and_confirm_transaction globals client txn signers skip confirm
     = (Inr Failure, [Submit 1, Sleep 1, Submit 2, Sleep 2, Submit 3])"
proof -
  let ?send = "\<lambda>n. send_transaction client n txn signers \<lparr>skip_preflight = skip, max_retries = 1\<rparr>"
  obtain m1 where 1: "?send 1 = Inl (Exc Exception m1)"
      "sublist ''429'' m1 \<or> sublist ''Too Many Requests'' m1" using assms(2) by blast
  obtain m2 where 2: "?send 2 = Inl (Exc Exception m2)"
      "sublist ''429'' m2 \<or> sublist ''Too Many Requests'' m2" using assms(2) by blast
  obtain m3 where 3: "?send 3 = Inl (Exc Exception m3)"
      "sublist ''429'' m3 \<or> sublist ''Too Many Requests'' m3" using assms(2) by blast
  show ?thesis using 1 2 3 assms(1)
    by (simp add: send_and_confirm_transaction_def asyncio_sleep_def)
qed

text \<open>
  C1.  The claim is that a transport failing every submission with a rate-limit error
  is tried exactly three times before \<open>False\<close> is returned.  The module \<open>utils\<close> never
  imports \<open>asyncio\<close>, so the first backoff sleep raises \<open>NameError\<close>: on such a
  transport the pipeline makes one submission and the exception leaves the function.
\<close>

theorem send_rate_limited_raises_NameError:
  "send_and_confirm_transaction utils_globals rate_limited_client () [] True False
     = (Inl (Exc NameError ''name 'asyncio' is not defined''), [Submit 1])
   \<and> submissions (snd (send_and_confirm_transaction utils_globals rate_limited_client
                          () [] True False)) = 1"
  by (simp add: send_and_confirm_transaction_def rate_limited_client_def asyncio_sleep_def
      utils_globals_def)

text \<open>
  C9.  When the first submission fails with an error whose text holds neither \<open>429\<close> nor
  \<open>Too Many Requests\<close>, the pipeline returns \<open>False\<close> after exactly one submission, with
  no retry and no sleep.
\<close>

theorem send_other_error_no_retry:
  assumes "send_transaction client 1 txn signers \<lparr>skip_preflight = skip, max_retries = 1\<rparr> = Inl e"
    and "is_Exception (exc_class e)"
    and "\<not> sublist ''429'' (exc_str e)"
    and "\<not> sublist ''Too Many Requests'' (exc_str e)"
  shows "fst (send_and_confirm_transaction globals client txn signers skip confirm) = Inr Failure
    \<and> submissions (snd (send_and_confirm_transaction globals client txn signers skip confirm)) = 1
    \<and> delays (snd (send_and_confirm_transaction globals client txn signers skip confirm)) = []
    \<and> snd (send_and_confirm_transaction globals client txn signers skip confirm) = [Submit 1]"
  using assms by (simp add: send_and_confirm_transaction_def)

theorem send_other_error_no_retry_witness:
  "fst (send_and_confirm_transaction utils_globals rejecting_client () [] True False) = Inr Failure
    \<and> submissions (snd (send_and_confirm_transaction utils_globals rejecting_client
                           () [] True False)) = 1
    \<and> delays (snd (send_and_confirm_transaction utils_globals rejecting_client
                      () [] True False)) = []"
  using send_other_error_no_retry [of rejecting_client "()" "[]" True
      "Exc Exception ''Blockhash not found''" utils_globals False]
  by (simp add: rejecting_client_def sublist_code)

subsection \<open>Entry point\<close>

text \<open>
  What the top-level handler does with an exception of class \<open>Exception\<close> that leaves
  \<open>main\<close>: it writes the line \<open>Fatal error:\<close> with the text and then the trace, and the
  block ends, which leaves the interpreter with status 0.
\<close>

lemma main_block_exception_logged:
  assumes "is_Exception (exc_class e)"
  shows "main_block (Inl e) = ([Printed (''Fatal error: '' @ exc_str e), Traceback e], 0)"
  using assms by (cases "exc_class e") (simp_all add: main_block_def)

text \<open>The program's other fatal ending, a missing key, leaves with status 1.\<close>

lemma main_block_missing_keypair:
  assumes "KEYPAIR_B58 env = None"
  shows "main_block (fst (main env)) = ([], 1)"
  using assms by (simp add: main_def validate_environment_def sys_exit_def main_block_def)

text \<open>
  C3.  The claim is that an exception escaping \<open>main\<close> is caught once at the top level,
  logged with a full trace, and that the process exits with a non-zero status.  The
  handler catches it and writes \<open>Fatal error:\<close> and the trace, but calls no \<open>sys.exit\<close>:
  for an exception with the text \<open>boom\<close> the exit status is 0.
\<close>

theorem main_block_exception_exit_status:
  "main_block (Inl (Exc Exception ''boom''))
     = ([Printed ''Fatal error: boom'', Traceback (Exc Exception ''boom'')], 0)"
  by (simp add: main_block_def)

subsection \<open>Metadata uploader\<close>

text \<open>
  Where the uploader does stop: a metadata endpoint that answers with another status
  than 200, and an image endpoint that does so when no image URL was passed in.
\<close>

lemma upload_metadata_not_ok:
  assumes "http_post_json w ''https://gated.chat/upload/meta'' (PDict metadata) = Inr (status, text)"
    and "status \<noteq> 200"
  shows "upload_metadata w metadata = Inr PNone"
  using assms by (simp add: upload_metadata_def)

lemma prepare_ipfs_image_failure_without_url:
  assumes "http_post_bytes w ''https://gated.chat/upload/img'' (multipart_body (b # bs))
             = Inr (status, text)"
    and "status \<noteq> 200"
  shows "prepare_ipfs w name symbol description twitter telegram website None (Some (b # bs)) file
           = Inr PNone"
  using assms
  by (simp add: prepare_ipfs_def resolve_image_url_def resolve_image_data_def upload_image_def
      except_Exception_def)

text \<open>
  C2.  The claim is that \<open>prepare_ipfs\<close> returns \<open>None\<close> whenever an upload step fails,
  and never a URI when the bytes resolved from a remote URL failed to upload.  The check
  after the image upload, \<open>if not image_url\<close>, reads the variable that still holds the
  URL passed in: with a remote URL whose bytes download, an image endpoint answering 500
  and a metadata endpoint answering with a URI, the function goes on and returns that
  URI.
\<close>

theorem prepare_ipfs_image_upload_failure_ignored:
  "prepare_ipfs image_endpoint_down ''Token'' ''TKN'' ''A token'' [] [] []
      (Some ''https://example.com/a.png'') None None
     = Inr (PStr ''https://ipfs.example/meta.json'')"
  by (simp add: prepare_ipfs_def resolve_image_url_def resolve_image_data_def download_image_def
      upload_image_def upload_metadata_def image_endpoint_down_def except_Exception_def
      PINATA_PREFIX_def strip_def is_space_def Let_def)

subsection \<open>Balance gate\<close>

lemma low_balance:
  "float_lt (float_literal (10 / 100)) (float_add INITIAL_BUY_SOL (float_literal (1 / 10)))"
  by (simp add: INITIAL_BUY_SOL_def float_eval)

lemma high_balance:
  "float_le (float_add INITIAL_BUY_SOL (float_literal (1 / 10))) (float_literal (20 / 100))"
  by (simp add: INITIAL_BUY_SOL_def float_eval)

lemma main_aborts:
  assumes "validate_environment (KEYPAIR_B58 env) = Inr ()"
    and "call_test_ssl_connection env = Inr ()"
    and "make_keypair_from_base58 (b58decode env) (keypair_from_bytes env) (KEYPAIR_B58 env)
           = Inr payer"
    and "call_get_wallet_balance env (keypair_pubkey payer) = Inr balance"
    and "float_lt balance (float_add INITIAL_BUY_SOL (float_literal (1 / 10)))"
  shows "main env = (Inr (), [TestSslConnection, GetWalletBalance])"
  using assms by (simp add: main_def Let_def)

lemma main_proceeds:
  assumes "validate_environment (KEYPAIR_B58 env) = Inr ()"
    and "call_test_ssl_connection env = Inr ()"
    and "make_keypair_from_base58 (b58decode env) (keypair_from_bytes env) (KEYPAIR_B58 env)
           = Inr payer"
    and "call_get_wallet_balance env (keypair_pubkey payer) = Inr balance"
    and "\<not> float_lt balance (float_add INITIAL_BUY_SOL (float_literal (1 / 10)))"
  shows "take 3 (snd (main env)) = [TestSslConnection, GetWalletBalance, PrepareIpfs]"
  using assms by (simp add: main_def Let_def split: sum.split prod.split)

text \<open>
  C6.  The configured buy amount is the double 0.05.  In a run that reaches the balance
  query, \<open>main\<close> returns right after it, with no metadata upload and no launch call,
  whenever the fetched balance is below \<open>0.05 + 0.1\<close> as floats add and compare, and
  goes on to the metadata upload whenever the balance is at least that sum.  A balance of
  0.10 is below it and a balance of 0.20 is not.
\<close>

theorem balance_gate:
  assumes "validate_environment (KEYPAIR_B58 env) = Inr ()"
    and "call_test_ssl_connection env = Inr ()"
    and "make_keypair_from_base58 (b58decode env) (keypair_from_bytes env) (KEYPAIR_B58 env)
           = Inr payer"
    and "call_get_wallet_balance env (keypair_pubkey payer) = Inr balance"
  shows "INITIAL_BUY_SOL = float_literal (5 / 100)
    \<and> (float_lt balance (float_add INITIAL_BUY_SOL (float_literal (1 / 10))) \<longrightarrow>
         main env = (Inr (), [TestSslConnection, GetWalletBalance]))
    \<and> (float_le (float_add INITIAL_BUY_SOL (float_literal (1 / 10))) balance \<longrightarrow>
         take 3 (snd (main env)) = [TestSslConnection, GetWalletBalance, PrepareIpfs])
    \<and> float_lt (float_literal (10 / 100)) (float_add INITIAL_BUY_SOL (float_literal (1 / 10)))
    \<and> float_le (float_add INITIAL_BUY_SOL (float_literal (1 / 10))) (float_literal (20 / 100))"
  using main_aborts [OF assms] main_proceeds [OF assms] float_le_not_lt low_balance high_balance
  by (auto simp: INITIAL_BUY_SOL_def)

lemma sample_balance_100:
  "get_wallet_balance (answering (PDict [(''result'', PDict [(''value'', PInt 100000000)])]))
     (\<lambda>pubkey. ''address'') pk = Inr (float_literal (10 / 100))"
  by (simp add: get_wallet_balance_def answering_def except_Exception_def div_1e9_def
      float_of_int_def float_eval)

lemma sample_balance_200:
  "get_wallet_balance (answering (PDict [(''result'', PDict [(''value'', PInt 200000000)])]))
     (\<lambda>pubkey. ''address'') pk = Inr (float_literal (20 / 100))"
  by (simp add: get_wallet_balance_def answering_def except_Exception_def div_1e9_def
      float_of_int_def float_eval)

lemma sample_env_reaches_gate:
  "validate_environment (KEYPAIR_B58 (sample_env n)) = Inr ()"
  "call_test_ssl_connection (sample_env n) = Inr ()"
  "make_keypair_from_base58 (b58decode (sample_env n)) (keypair_from_bytes (sample_env n))
     (KEYPAIR_B58 (sample_env n)) = Inr (Keypair (replicate 64 1) (Pubkey (replicate 32 1)))"
  by (simp_all add: sample_env_def validate_environment_def make_keypair_from_base58_def
      except_Exception_def)

theorem balance_gate_witness:
  "main (sample_env 100000000) = (Inr (), [TestSslConnection, GetWalletBalance])
   \<and> take 3 (snd (main (sample_env 200000000)))
       = [TestSslConnection, GetWalletBalance, PrepareIpfs]"
proof -
  have b1: "call_get_wallet_balance (sample_env 100000000)
              (keypair_pubkey (Keypair (replicate 64 1) (Pubkey (replicate 32 1))))
            = Inr (float_literal (10 / 100))"
    by (simp add: sample_env_def sample_balance_100)
  have b2: "call_get_wallet_balance (sample_env 200000000)
              (keypair_pubkey (Keypair (replicate 64 1) (Pubkey (replicate 32 1))))
            = Inr (float_literal (20 / 100))"
    by (simp add: sample_env_def sample_balance_200)
  show ?thesis
    using balance_gate [OF sample_env_reaches_gate b1] balance_gate [OF sample_env_reaches_gate b2]
    by simp
qed


subsection \<open>Token balance\<close>



text \<open>An answer without a \<open>result\<close> member, an RPC error for one, yields \<open>0.0\<close>.\<close>

lemma get_token_balance_no_result:
  assumes "''result'' \<notin> fst ` set kvs"
  shows "get_token_balance (answering (PDict kvs)) owner mint = Inr (PFloat (Finite 0))"
  using assms by (simp add: get_token_balance_def answering_def except_Exception_def)











subsection \<open>Temporary wrapped-native account\<close>

lemma sample_base_units:
  "int_of_float (float_mul (float_literal (5 / 100)) (Finite (10 ^ 9))) = Inr 50000000"
  by (simp add: float_eval)

lemma sample_base_units_large:
  "int_of_float (float_mul (float_literal 20000000000) (Finite (10 ^ 9)))
     = Inr 20000000000000000000"
  by (simp add: float_eval)

lemma sample_base_units_negative:
  "int_of_float (float_mul (float_literal (- (1 / 2))) (Finite (10 ^ 9))) = Inr (- 500000000)"
  by (simp add: float_eval)

text \<open>
  For the amount \<open>-0.5\<close> the lamports come to \<open>2039280 - 500000000\<close>, which the library
  refuses: the function raises and returns nothing.
\<close>

theorem create_temporary_wsol_account_negative_amount:
  "create_temporary_wsol_account sample_settings (Keypair [2] (Pubkey [3])) rent_query_ok
       sample_create_account (Pubkey [1]) (float_literal (- (1 / 2)))
     = Inl lamports_out_of_range"
  using sample_base_units_negative float_of_int_1e9
  by (simp add: create_temporary_wsol_account_def except_Exception_def rent_query_ok_def
      sample_settings_def call_create_account_def Let_def)

text \<open>
  C8, as amended.  With nine decimals configured, for every payer and every amount for
  which \<open>int(amount * 10 ** 9)\<close> is defined and the lamports, the rent-exempt minimum plus
  that number of base units, fit an unsigned 64-bit integer,
  \<open>create_temporary_wsol_account\<close> returns the address of the generated key pair, exactly
  two instructions and the key pair itself.  The first instruction is the system account
  creation from the payer to the new address with these lamports, space 165 and the token
  program as owner; the minimum is the answer of the RPC query for 165 bytes, or 2039280
  when the query raises.  The second is the token program's InitializeAccount (payload
  byte 1) on the new account, the wrapped-native mint, the payer as owner and the rent
  sysvar.  When the lamports do not fit, the account creation call raises \<open>TypeError\<close>.
\<close>

theorem create_temporary_wsol_account_result:
  assumes "SOL_DECIMAL cfg = 9"
    and "int_of_float (float_mul amount (Finite (10 ^ 9))) = Inr base_units"
    and "get_minimum_balance_for_rent_exemption 165 = Inr rent
         \<or> (\<exists>e. get_minimum_balance_for_rent_exemption 165 = Inl e
                \<and> is_Exception (exc_class e) \<and> rent = 2039280)"
  shows "(0 \<le> rent + base_units \<and> rent + base_units < 2 ^ 64 \<longrightarrow>
           create_temporary_wsol_account cfg new_keypair get_minimum_balance_for_rent_exemption
               create_account payer amount
             = Inr (keypair_pubkey new_keypair,
                    [create_account
                       (CreateAccountParams payer (keypair_pubkey new_keypair)
                          (rent + base_units) 165 (TOKEN_PROGRAM cfg)),
                     Instruction (TOKEN_PROGRAM cfg) [1]
                       [AccountMeta (keypair_pubkey new_keypair) False True,
                        AccountMeta (WSOL_TOKEN cfg) False False,
                        AccountMeta payer False False,
                        AccountMeta (RENT cfg) False False]],
                    new_keypair))
     \<and> (rent + base_units < 0 \<or> 2 ^ 64 \<le> rent + base_units \<longrightarrow>
           create_temporary_wsol_account cfg new_keypair get_minimum_balance_for_rent_exemption
               create_account payer amount
             = Inl lamports_out_of_range)"
  using assms float_of_int_1e9
  by (auto simp: create_temporary_wsol_account_def except_Exception_def Let_def
      SPL_TOKEN_INITIALIZE_ACCOUNT_def call_create_account_def)

theorem create_temporary_wsol_account_result_witness:
  "create_temporary_wsol_account sample_settings (Keypair [2] (Pubkey [3]))
       rent_query_ok sample_create_account (Pubkey [1]) (float_literal (5 / 100))
     = Inr (Pubkey [3],
            [sample_create_account
               (CreateAccountParams (Pubkey [1]) (Pubkey [3]) 52039280 165 (Pubkey [6])),
             Instruction (Pubkey [6]) [1]
               [AccountMeta (Pubkey [3]) False True, AccountMeta (Pubkey [7]) False False,
                AccountMeta (Pubkey [1]) False False, AccountMeta (Pubkey [9]) False False]],
            Keypair [2] (Pubkey [3]))
   \<and> create_temporary_wsol_account sample_settings (Keypair [2] (Pubkey [3]))
       rent_query_down sample_create_account (Pubkey [1]) (float_literal (5 / 100))
     = Inr (Pubkey [3],
            [sample_create_account
               (CreateAccountParams (Pubkey [1]) (Pubkey [3]) 52039280 165 (Pubkey [6])),
             Instruction (Pubkey [6]) [1]
               [AccountMeta (Pubkey [3]) False True, AccountMeta (Pubkey [7]) False False,
                AccountMeta (Pubkey [1]) False False, AccountMeta (Pubkey [9]) False False]],
            Keypair [2] (Pubkey [3]))
   \<and> create_temporary_wsol_account sample_settings (Keypair [2] (Pubkey [3]))
       rent_query_ok sample_create_account (Pubkey [1]) (float_literal 20000000000)
     = Inl lamports_out_of_range"
proof -
  have d: "SOL_DECIMAL sample_settings = 9" by (simp add: sample_settings_def)
  have q1: "rent_query_ok 165 = Inr 2039280
         \<or> (\<exists>e. rent_query_ok 165 = Inl e \<and> is_Exception (exc_class e) \<and> (2039280::int) = 2039280)"
    by (simp add: rent_query_ok_def)
  have q2: "rent_query_down 165 = Inr 2039280
         \<or> (\<exists>e. rent_query_down 165 = Inl e \<and> is_Exception (exc_class e)
                \<and> (2039280::int) = 2039280)"
    by (simp add: rent_query_down_def)
  show ?thesis
    using create_temporary_wsol_account_result
        [where get_minimum_balance_for_rent_exemption = rent_query_ok and rent = 2039280
           and new_keypair = "Keypair [2] (Pubkey [3])" and create_account = sample_create_account
           and payer = "Pubkey [1]", OF d sample_base_units q1]
      create_temporary_wsol_account_result
        [where get_minimum_balance_for_rent_exemption = rent_query_down and rent = 2039280
           and new_keypair = "Keypair [2] (Pubkey [3])" and create_account = sample_create_account
           and payer = "Pubkey [1]", OF d sample_base_units q2]
      create_temporary_wsol_account_result
        [where get_minimum_balance_for_rent_exemption = rent_query_ok and rent = 2039280
           and new_keypair = "Keypair [2] (Pubkey [3])" and create_account = sample_create_account
           and payer = "Pubkey [1]", OF d sample_base_units_large q1]
    by (simp add: sample_settings_def)
qed

end
